theory Spec2Isabelle
  imports
    Complex_Main
    "HOL-Library.Multiset"
    "HOL-Library.Product_Lexorder"
    "HOL-Library.Char_ord"
    "HOL-Library.List_Lexorder"
begin

section \<open>The ledger of \<^verbatim>\<open>finance_tracker_app.py\<close>\<close>

text \<open>
  The application keeps one table of transactions (a pandas DataFrame with the columns
  \<^verbatim>\<open>date, description, category, amount, type\<close>), loads it from and rewrites it to
  \<^verbatim>\<open>transactions.csv\<close>, and derives every figure of the dashboard from the table on
  each run of \<^verbatim>\<open>main\<close>.

  Conventions of the embedding:
  \<^item> the table is the list of its rows, in index order;
  \<^item> an amount is a \<^typ>\<open>real\<close>: a column of amounts never holds a missing value once a
    row is in the table, and rounding of binary floating point is not modelled;
  \<^item> a calendar date is its proleptic Gregorian ordinal, a timestamp the pair of its
    calendar date and the microseconds since midnight; pairs are ordered
    lexicographically, which is the order of timestamps;
  \<^item> a cell of the CSV file is \<^typ>\<open>string option\<close>, \<^term>\<open>None\<close> for a cell that is read as
    missing;
  \<^item> the two table sorts are library calls with the default algorithm, which the
    library documents as not stable. They are parameters of the plotting functions;
    the theorems assume of them only that the result is a permutation in key order;
  \<^item> a plotting function returns the series it draws, or \<^term>\<open>None\<close> where the source
    issues its "no data" warning and returns.
\<close>

subsection \<open>Dates and timestamps\<close>

type_synonym pydate = int

type_synonym datetime = "pydate \<times> nat"

text \<open>\<^verbatim>\<open>datetime.combine(d, t)\<close>, \<^verbatim>\<open>ts.time()\<close> and \<^verbatim>\<open>ts.date()\<close>.\<close>

definition combine :: "pydate \<Rightarrow> nat \<Rightarrow> datetime" where
  "combine d t = (d, t)"

definition time_of :: "datetime \<Rightarrow> nat" where
  "time_of ts = snd ts"

definition date_of :: "datetime \<Rightarrow> pydate" where
  "date_of ts = fst ts"

text \<open>\<^verbatim>\<open>pd.to_datetime\<close> of a calendar date is midnight of that date.\<close>

definition to_datetime_date :: "pydate \<Rightarrow> datetime" where
  "to_datetime_date d = (d, 0)"

text \<open>
  \<^verbatim>\<open>strftime("%Y-%m-%d %H:%M:%S")\<close> followed by \<^verbatim>\<open>pd.to_datetime\<close> of the string: the
  timestamp with its microseconds dropped.
\<close>

definition strftime_seconds :: "datetime \<Rightarrow> datetime" where
  "strftime_seconds ts = (fst ts, snd ts - snd ts mod 1000000)"

subsection \<open>Strings\<close>

text \<open>
  \<^verbatim>\<open>str.lower\<close> on the ASCII letters and \<^verbatim>\<open>str.strip\<close> with the ASCII characters for
  which \<^verbatim>\<open>str.isspace\<close> holds. Characters outside ASCII are left as they are.
\<close>

definition lower_char :: "char \<Rightarrow> char" where
  "lower_char c =
     (case map_of (zip ''ABCDEFGHIJKLMNOPQRSTUVWXYZ'' ''abcdefghijklmnopqrstuvwxyz'') c of
        Some l \<Rightarrow> l
      | None \<Rightarrow> c)"

definition lower :: "string \<Rightarrow> string" where
  "lower s = map lower_char s"

definition isspace :: "char \<Rightarrow> bool" where
  "isspace c = (c \<in> set [CHR 0x09, CHR 0x0A, CHR 0x0B, CHR 0x0C, CHR 0x0D,
                          CHR 0x1C, CHR 0x1D, CHR 0x1E, CHR 0x1F, CHR 0x20])"

definition strip :: "string \<Rightarrow> string" where
  "strip s = rev (dropWhile isspace (rev (dropWhile isspace s)))"

subsection \<open>Transactions and the table\<close>

record transaction =
  date :: datetime
  description :: "string option"
  category :: string
  amount :: real
  type :: string

type_synonym dataframe = "transaction list"

subsection \<open>Loading the CSV file\<close>

record csv_row =
  c_date :: "string option"
  c_description :: "string option"
  c_category :: "string option"
  c_amount :: "string option"
  c_type :: "string option"

text \<open>
  \<^verbatim>\<open>astype(str)\<close> turns every cell into a string; a missing cell becomes the string
  \<^verbatim>\<open>nan\<close> (pandas before 3.0, where the cast applies \<^verbatim>\<open>str\<close> to the NaN marker).
\<close>

definition astype_str :: "string option \<Rightarrow> string" where
  "astype_str c = (case c of None \<Rightarrow> ''nan'' | Some s \<Rightarrow> s)"

text \<open>
  One row through the body of \<^verbatim>\<open>load_initial_data\<close>. The two coercions
  (\<^verbatim>\<open>errors="coerce"\<close>) are parameters: each gives \<^term>\<open>None\<close> for a text it rejects, and
  a missing cell stays missing. The type column is cast to strings before
  \<^verbatim>\<open>dropna\<close> inspects it, so it holds a string in every row by then.
\<close>

definition load_row ::
  "(string \<Rightarrow> datetime option) \<Rightarrow> (string \<Rightarrow> real option) \<Rightarrow> csv_row \<Rightarrow> transaction option"
where
  "load_row to_datetime to_numeric r =
     (let date_cell = Option.bind (c_date r) to_datetime;
          amount_cell = Option.bind (c_amount r) to_numeric;
          type_cell = Some (strip (lower (astype_str (c_type r))));
          category_cell = strip (astype_str (c_category r))
      in case date_cell of
           None \<Rightarrow> None
         | Some d \<Rightarrow>
             (case amount_cell of
                None \<Rightarrow> None
              | Some a \<Rightarrow>
                  (case type_cell of
                     None \<Rightarrow> None
                   | Some ty \<Rightarrow>
                       Some \<lparr>date = d, description = c_description r,
                             category = category_cell, amount = a, type = ty\<rparr>)))"

text \<open>
  The file is \<^term>\<open>None\<close> when it does not exist, and otherwise the data rows under its
  header line.
\<close>

definition load_initial_data ::
  "(string \<Rightarrow> datetime option) \<Rightarrow> (string \<Rightarrow> real option) \<Rightarrow> csv_row list option \<Rightarrow> dataframe"
where
  "load_initial_data to_datetime to_numeric data_file =
     (case data_file of
        None \<Rightarrow> []
      | Some rows \<Rightarrow>
          if rows = [] then []
          else List.map_filter (load_row to_datetime to_numeric) rows)"

subsection \<open>The session and adding a transaction\<close>

text \<open>
  The state a run of the application works on: the table held in the session, and the
  table last written to the CSV file (\<^term>\<open>None\<close> while there is no file).
\<close>

record session =
  transactions :: dataframe
  csv_file :: "dataframe option"

definition save_to_csv :: "dataframe \<Rightarrow> session \<Rightarrow> session" where
  "save_to_csv df st = st\<lparr>csv_file := Some df\<rparr>"

text \<open>
  The row that \<^verbatim>\<open>add_transaction_to_state\<close> builds from the form's fields; \<open>now\<close> is the
  clock's reading.
\<close>

definition new_row ::
  "datetime \<Rightarrow> pydate \<Rightarrow> string \<Rightarrow> string \<Rightarrow> real \<Rightarrow> string \<Rightarrow> transaction"
where
  "new_row now tx_date desc cat amt t_type =
     (let timestamp = combine tx_date (time_of now);
          date_str = strftime_seconds timestamp;
          t = strip (lower t_type);
          signed_amount = (if t = ''expense'' then - \<bar>amt\<bar> else \<bar>amt\<bar>)
      in \<lparr>date = date_str, description = Some desc, category = cat,
          amount = signed_amount, type = t\<rparr>)"

text \<open>
  The new row is appended to the table; the two column coercions that follow leave
  timestamps and numbers as they are; the session keeps the new table and the file is
  rewritten from it.
\<close>

definition add_transaction_to_state ::
  "datetime \<Rightarrow> pydate \<Rightarrow> string \<Rightarrow> string \<Rightarrow> real \<Rightarrow> string \<Rightarrow> session \<Rightarrow> session"
where
  "add_transaction_to_state now tx_date desc cat amt t_type st =
     (let df = transactions st @ [new_row now tx_date desc cat amt t_type]
      in save_to_csv df (st\<lparr>transactions := df\<rparr>))"

subsection \<open>The three series\<close>

fun cumsum_from :: "real \<Rightarrow> real list \<Rightarrow> real list" where
  "cumsum_from acc [] = []"
| "cumsum_from acc (x # xs) = (acc + x) # cumsum_from (acc + x) xs"






subsection \<open>The figures computed in \<^verbatim>\<open>main\<close>\<close>

text \<open>The date filter: the table itself when it is empty or "Show all time" is ticked.\<close>

definition filtered_df :: "bool \<Rightarrow> pydate \<Rightarrow> pydate \<Rightarrow> dataframe \<Rightarrow> dataframe" where
  "filtered_df show_all start_date end_date df =
     (if df \<noteq> [] then
        (if show_all then df
         else filter (\<lambda>t. to_datetime_date start_date \<le> date t \<and>
                           date t \<le> to_datetime_date end_date) df)
      else df)"

definition total_income :: "dataframe \<Rightarrow> real" where
  "total_income fdf =
     (if fdf = [] then 0
      else sum_list (map amount (filter (\<lambda>t. type t = ''income'') fdf)))"

definition total_expenses :: "dataframe \<Rightarrow> real" where
  "total_expenses fdf =
     (if fdf = [] then 0
      else - sum_list (map amount (filter (\<lambda>t. type t = ''expense'') fdf)))"

definition total_savings :: "dataframe \<Rightarrow> real" where
  "total_savings fdf =
     (if fdf = [] then 0
      else sum_list (map amount (filter (\<lambda>t. type t = ''savings'') fdf)))"

definition current_balance :: "dataframe \<Rightarrow> real" where
  "current_balance fdf =
     (if fdf = [] then 0
      else sum_list (map amount (filter (\<lambda>t. type t \<noteq> ''savings'') fdf)))"



subsection \<open>Sample data\<close>

text \<open>
  The three transactions of the end-to-end scenario, on 15, 16 and 17 January 2025,
  each entered at 09:30, and two more expenses.
\<close>

definition paycheck :: transaction where
  "paycheck = \<lparr>date = (739266, 34200000000), description = Some ''Paycheck'',
                category = ''Work'', amount = 1000, type = ''income''\<rparr>"

definition groceries :: transaction where
  "groceries = \<lparr>date = (739267, 34200000000), description = Some ''Groceries'',
                 category = ''Food'', amount = - 50, type = ''expense''\<rparr>"

definition emergency_fund :: transaction where
  "emergency_fund = \<lparr>date = (739268, 34200000000), description = Some ''Emergency fund'',
                      category = ''Savings'', amount = 200, type = ''savings''\<rparr>"

definition scenario :: dataframe where
  "scenario = [paycheck, groceries, emergency_fund]"




text \<open>
  Two data rows of a CSV file, and coercions that read the texts of these rows.
\<close>

definition sample_to_datetime :: "string \<Rightarrow> datetime option" where
  "sample_to_datetime s =
     (if s = ''2025-01-15 09:30:00'' then Some (739266, 34200000000)
      else if s = ''2025-01-16 09:30:00'' then Some (739267, 34200000000)
      else None)"

definition sample_to_numeric :: "string \<Rightarrow> real option" where
  "sample_to_numeric s =
     (if s = ''1000.0'' then Some 1000
      else if s = ''-50.0'' then Some (- 50)
      else None)"

definition paycheck_row :: csv_row where
  "paycheck_row = \<lparr>c_date = Some ''2025-01-15 09:30:00'', c_description = Some ''Paycheck'',
                    c_category = Some ''Work'', c_amount = Some ''1000.0'',
                    c_type = Some ''income''\<rparr>"

definition groceries_row :: csv_row where
  "groceries_row = \<lparr>c_date = Some ''2025-01-16 09:30:00'', c_description = Some ''Groceries'',
                     c_category = Some ''Food'', c_amount = Some ''-50.0'',
                     c_type = Some ''expense''\<rparr>"

subsection \<open>The balance series as the specification words it\<close>



lemmas scenario_defs = scenario_def paycheck_def groceries_def emergency_fund_def

lemmas sample_defs = sample_to_datetime_def sample_to_numeric_def paycheck_row_def groceries_row_def

lemmas string_defs = strip_def lower_def lower_char_def isspace_def

section \<open>The date filter\<close>

text \<open>
  What the mask of \<^verbatim>\<open>main\<close> keeps: both bounds are midnight timestamps, so a row is kept
  when its calendar date is on or after the first bound and either before the second
  bound's date or exactly at that date's midnight.
\<close>

lemma filtered_df_by_timestamp:
  "filtered_df False s e df =
     filter (\<lambda>t. s \<le> date_of (date t) \<and>
                 (date_of (date t) < e \<or> date_of (date t) = e \<and> time_of (date t) = 0)) df"
proof -
  have "(to_datetime_date s \<le> ts \<and> ts \<le> to_datetime_date e) =
        (s \<le> date_of ts \<and> (date_of ts < e \<or> date_of ts = e \<and> time_of ts = 0))" for ts
    by (cases ts) (auto simp: to_datetime_date_def date_of_def time_of_def)
  then show ?thesis by (simp add: filtered_df_def)
qed

lemma filtered_df_show_all: "filtered_df True s e df = df"
  by (simp add: filtered_df_def)

text \<open>
  C1. The filter offered with its default bounds, the earliest and the latest calendar
  date of the table (15 and 17 January for the scenario): the code returns the first
  two rows and leaves out the third, although that row's calendar date is the upper
  bound itself. A filter on calendar dates, inclusive on both ends, keeps all three.
\<close>

theorem filter_drops_rows_on_end_date:
  "filtered_df False 739266 739268 scenario = [paycheck, groceries] \<and>
   date_of (date emergency_fund) = 739268"
  by (simp add: filtered_df_def to_datetime_date_def date_of_def scenario_defs)

section \<open>The sign of a stored amount\<close>



section \<open>Summary totals\<close>

lemma sum_nonpos_expenses:
  "\<forall>t \<in> set df. type t = ''expense'' \<longrightarrow> amount t \<le> 0 \<Longrightarrow>
     sum_list (map amount (filter (\<lambda>t. type t = ''expense'') df)) \<le> 0"
  by (induction df) auto

text \<open>
  C3. For every filtered table, total income is the sum of the amounts of the rows of
  type income, total expenses the negated sum of the amounts of the rows of type
  expense, total savings the sum over the rows of type savings, and the net balance the
  sum over all rows whose type is not savings. When no expense row has a positive
  amount (the sign invariant), total expenses is non-negative. On the empty table all
  four are 0.
\<close>

theorem summary_totals:
  "total_income df = sum_list (map amount (filter (\<lambda>t. type t = ''income'') df)) \<and>
   total_expenses df = - sum_list (map amount (filter (\<lambda>t. type t = ''expense'') df)) \<and>
   total_savings df = sum_list (map amount (filter (\<lambda>t. type t = ''savings'') df)) \<and>
   current_balance df = sum_list (map amount (filter (\<lambda>t. type t \<noteq> ''savings'') df)) \<and>
   ((\<forall>t \<in> set df. type t = ''expense'' \<longrightarrow> amount t \<le> 0) \<longrightarrow> 0 \<le> total_expenses df) \<and>
   total_income [] = 0 \<and> total_expenses [] = 0 \<and> total_savings [] = 0 \<and>
   current_balance [] = 0"
proof -
  have "(\<forall>t \<in> set df. type t = ''expense'' \<longrightarrow> amount t \<le> 0) \<longrightarrow> 0 \<le> total_expenses df"
    using sum_nonpos_expenses [of df] by (simp add: total_expenses_def)
  then show ?thesis
    by (simp add: total_income_def total_expenses_def total_savings_def current_balance_def)
qed

theorem summary_totals_witness:
  "total_income scenario = 1000 \<and> total_expenses scenario = 50 \<and>
   total_savings scenario = 200 \<and> current_balance scenario = 950 \<and>
   0 \<le> total_expenses scenario"
proof -
  have inv: "\<forall>t \<in> set scenario. type t = ''expense'' \<longrightarrow> amount t \<le> 0"
    by (simp add: scenario_defs)
  have "0 \<le> total_expenses scenario"
    using summary_totals [of scenario] inv by blast
  moreover have "total_income scenario = 1000" "total_expenses scenario = 50"
    "total_savings scenario = 200" "current_balance scenario = 950"
    using summary_totals [of scenario] by (simp_all add: scenario_defs)
  ultimately show ?thesis by simp
qed

section \<open>Running sums and sorted series\<close>



lemma cumsum_from_eq_Nil: "cumsum_from a xs = [] \<longleftrightarrow> xs = []"
  by (cases xs) simp_all

lemma last_cumsum_from: "xs \<noteq> [] \<Longrightarrow> last (cumsum_from a xs) = a + sum_list xs"
proof (induction xs arbitrary: a)
  case Nil
  then show ?case by simp
next
  case (Cons x xs)
  show ?case
  proof (cases "xs = []")
    case True
    then show ?thesis by simp
  next
    case False
    from Cons.IH [OF False, of "a + x"] False show ?thesis
      by (simp add: cumsum_from_eq_Nil add.assoc)
  qed
qed








section \<open>The balance series\<close>




section \<open>Expense totals by category\<close>








section \<open>Loading the file\<close>

text \<open>
  A missing file and a file with no data rows load as the empty table. A row is left
  out exactly when its date or its amount is rejected or missing: the type never
  decides.
\<close>

lemma load_absent: "load_initial_data td tn None = []"
  by (simp add: load_initial_data_def)

lemma load_header_only: "load_initial_data td tn (Some []) = []"
  by (simp add: load_initial_data_def)

lemma load_row_dropped:
  "load_row td tn r = None \<longleftrightarrow>
     Option.bind (c_date r) td = None \<or> Option.bind (c_amount r) tn = None"
  by (simp add: load_row_def Let_def split: option.splits)

lemma load_bad_amount:
  "load_initial_data sample_to_datetime sample_to_numeric
     (Some [paycheck_row, groceries_row\<lparr>c_amount := Some ''abc''\<rparr>]) = [paycheck]"
  by (simp add: load_initial_data_def load_row_def Let_def List.map_filter_simps sample_defs
      astype_str_def string_defs scenario_defs)

text \<open>
  C6. A file with one complete row and one row whose type cell is missing loads as two
  transactions: the second is kept, with the type \<^verbatim>\<open>nan\<close>. The comment of the source
  ("Remove corrupted rows") and the \<^verbatim>\<open>type\<close> entry of the \<^verbatim>\<open>dropna\<close> subset say that such
  a row is to be removed.
\<close>

theorem load_keeps_row_without_type:
  "load_initial_data sample_to_datetime sample_to_numeric
     (Some [paycheck_row, groceries_row\<lparr>c_type := None\<rparr>]) =
     [paycheck, groceries\<lparr>type := ''nan''\<rparr>]"
  by (simp add: load_initial_data_def load_row_def Let_def List.map_filter_simps sample_defs
      astype_str_def string_defs scenario_defs)

section \<open>Progress towards the savings goal\<close>




section \<open>The savings series\<close>



section \<open>Adding a transaction\<close>

text \<open>
  The timestamp of the new row: the chosen date with the clock's time of day, to the
  second.
\<close>

lemma new_row_date: "date (new_row (739266, 34200000123) 739267 ''Groceries'' ''Food'' 50 '' Expense '') = (739267, 34200000000)"
  by (simp add: new_row_def Let_def combine_def time_of_def strftime_seconds_def)

text \<open>
  C9. For every session and every submitted form, the table after the call is the
  table before it followed by the one new row, so it is one row longer; every row that
  was there is the same row at the same position; and the file written holds exactly
  the table the session now holds.
\<close>

theorem append_extends:
  "transactions (add_transaction_to_state now d desc cat amt ty st) =
     transactions st @ [new_row now d desc cat amt ty] \<and>
   length (transactions (add_transaction_to_state now d desc cat amt ty st)) =
     Suc (length (transactions st)) \<and>
   (\<forall>i<length (transactions st).
      transactions (add_transaction_to_state now d desc cat amt ty st) ! i = transactions st ! i) \<and>
   csv_file (add_transaction_to_state now d desc cat amt ty st) =
     Some (transactions (add_transaction_to_state now d desc cat amt ty st))"
  by (simp add: add_transaction_to_state_def save_to_csv_def Let_def nth_append)

theorem append_extends_witness:
  "transactions (add_transaction_to_state (739268, 61200000456) 739268 ''Lunch'' ''Food'' 20
      ''expense'' \<lparr>transactions = scenario, csv_file = Some scenario\<rparr>) ! 1 = groceries \<and>
   csv_file (add_transaction_to_state (739268, 61200000456) 739268 ''Lunch'' ''Food'' 20
      ''expense'' \<lparr>transactions = scenario, csv_file = Some scenario\<rparr>) =
     Some [paycheck, groceries, emergency_fund,
           \<lparr>date = (739268, 61200000000), description = Some ''Lunch'', category = ''Food'',
            amount = - 20, type = ''expense''\<rparr>]"
proof -
  let ?st = "\<lparr>transactions = scenario, csv_file = Some scenario\<rparr>"
  let ?st' = "add_transaction_to_state (739268, 61200000456) 739268 ''Lunch'' ''Food'' 20 ''expense'' ?st"
  note inst = append_extends [of "(739268, 61200000456)" 739268 "''Lunch''" "''Food''" 20 "''expense''" ?st]
  have "(1::nat) < length (transactions ?st)" by (simp add: scenario_def)
  with inst have "transactions ?st' ! 1 = transactions ?st ! 1" by blast
  then have old: "transactions ?st' ! 1 = groceries" by (simp add: scenario_def)
  have row: "new_row (739268, 61200000456) 739268 ''Lunch'' ''Food'' 20 ''expense'' =
      \<lparr>date = (739268, 61200000000), description = Some ''Lunch'', category = ''Food'',
       amount = - 20, type = ''expense''\<rparr>"
    by (simp add: new_row_def Let_def combine_def time_of_def strftime_seconds_def string_defs)
  from inst have "csv_file ?st' = Some (transactions ?st @
      [new_row (739268, 61200000456) 739268 ''Lunch'' ''Food'' 20 ''expense''])"
    by simp
  then have written: "csv_file ?st' = Some [paycheck, groceries, emergency_fund,
           \<lparr>date = (739268, 61200000000), description = Some ''Lunch'', category = ''Food'',
            amount = - 20, type = ''expense''\<rparr>]"
    by (simp add: row scenario_def)
  from old written show ?thesis by blast
qed

section \<open>Net balance against income and expenses\<close>




text \<open>
  A row of another type (here the type \<^verbatim>\<open>nan\<close> that loading gives a row without a type)
  counts towards the net balance and towards neither total.
\<close>

lemma net_balance_counts_other_types:
  "current_balance [groceries\<lparr>type := ''nan''\<rparr>] = - 50 \<and>
   total_income [groceries\<lparr>type := ''nan''\<rparr>] - total_expenses [groceries\<lparr>type := ''nan''\<rparr>] = 0"
  by (simp add: current_balance_def total_income_def total_expenses_def groceries_def)

end
